theory Spec2Isabelle
  imports Main
begin

section \<open>SnowCat: values, exceptions and the object's state\<close>

text \<open>
  The parsed body of a response, as \<^verbatim>\<open>response.json()\<close> hands it to \<^verbatim>\<open>fetch\<close>: a
  Python value built from \<^verbatim>\<open>None\<close>, booleans, integers, strings, lists and dicts. A dict
  is kept as the list of its items (keys distinct, in insertion order).
\<close>

datatype json =
    JNull
  | JBool bool
  | JNum int
  | JStr string
  | JArr "json list"
  | JObj "(string \<times> json) list"

text \<open>
  A scalar argument: \<^verbatim>\<open>int | str\<close> in the signatures of \<^verbatim>\<open>fetch\<close> and \<^verbatim>\<open>watch\<close>.
\<close>

datatype scalar = PInt int | PStr string

text \<open>
  \<^verbatim>\<open>course_ids\<close>, when it is not \<^verbatim>\<open>None\<close>: one scalar, a list, a tuple or a set of scalars.
  A set is given by the order in which iterating it yields its elements.
\<close>

datatype course_ids =
    Scalar scalar
  | PyList "scalar list"
  | PyTuple "scalar list"
  | PySet "scalar list"

text \<open>
  The exceptions that travel through the program. \<^verbatim>\<open>ValueError\<close> is the one \<^verbatim>\<open>fetch\<close>
  raises itself: it carries the exception it wraps (none for the raise of line 76) and the
  value of \<^verbatim>\<open>response['success']\<close> that its message prints. \<^verbatim>\<open>RequestException\<close> and
  \<^verbatim>\<open>JSONDecodeError\<close> come from \<^verbatim>\<open>requests.get\<close> and \<^verbatim>\<open>response.json()\<close>,
  \<^verbatim>\<open>PlaywrightError\<close> from the browser, \<^verbatim>\<open>UrlError\<close> from \<^verbatim>\<open>urlparse\<close>, and
  \<^verbatim>\<open>CallbackError\<close> is what a callback given to \<^verbatim>\<open>watch\<close> may raise, and
  \<^verbatim>\<open>SleepValueError\<close> is the \<^verbatim>\<open>ValueError\<close> of \<^verbatim>\<open>time.sleep\<close> for a negative length.
\<close>

datatype exn =
    KeyError string
  | TypeError
  | ValueError "exn option" json
  | RequestException
  | JSONDecodeError
  | PlaywrightError
  | UrlError
  | CallbackError
  | SleepValueError

text \<open>The calls made to the logger: level, role, message, and the exception the message prints.\<close>

datatype log_call =
    Info string string
  | Error string string "exn option"

text \<open>The fields of a \<^verbatim>\<open>SnowCat\<close> object that the methods read and write.\<close>

record snowcat =
  params :: "string \<rightharpoonup> scalar"
  headers :: "string \<rightharpoonup> string"
  was_failed :: bool
  logged :: "log_call list"

definition prefix :: string where
  "prefix = ''https://banner.apps.uillinois.edu/StudentRegistrationSSB/ssb/searchResults/searchResults''"

definition init :: snowcat where
  "init = \<lparr>params = Map.empty, headers = Map.empty, was_failed = False, logged = []\<rparr>"

definition log :: "log_call \<Rightarrow> snowcat \<Rightarrow> snowcat" where
  "log c s = s\<lparr>logged := logged s @ [c]\<rparr>"

section \<open>Python operations on values\<close>

text \<open>\<^verbatim>\<open>v[k]\<close> for a string key: a dict looks the key up, every other value raises \<^verbatim>\<open>TypeError\<close>.\<close>

fun py_getitem :: "json \<Rightarrow> string \<Rightarrow> exn + json" where
  "py_getitem (JObj kvs) k = (case map_of kvs k of None \<Rightarrow> Inl (KeyError k) | Some v \<Rightarrow> Inr v)"
| "py_getitem _ k = Inl TypeError"

text \<open>
  \<^verbatim>\<open>k in response\<close> at line 72. The line is reached only after \<^verbatim>\<open>response["data"]\<close> has
  returned, so \<^verbatim>\<open>response\<close> is a dict there and \<^verbatim>\<open>in\<close> tests its keys.
\<close>

fun py_has_key :: "string \<Rightarrow> json \<Rightarrow> bool" where
  "py_has_key k (JObj kvs) = (map_of kvs k \<noteq> None)"
| "py_has_key k _ = False"

text \<open>
  \<^verbatim>\<open>for candidate in candidate_list\<close>: a list yields its elements, a dict its keys, a
  string its characters; \<^verbatim>\<open>None\<close>, booleans and numbers are not iterable.
\<close>

fun py_iter :: "json \<Rightarrow> exn + json list" where
  "py_iter (JArr xs) = Inr xs"
| "py_iter (JObj kvs) = Inr (map (\<lambda>kv. JStr (fst kv)) kvs)"
| "py_iter (JStr s) = Inr (map (\<lambda>c. JStr [c]) s)"
| "py_iter _ = Inl TypeError"

text \<open>\<^verbatim>\<open>str(n)\<close> for an integer: its decimal digits, with a minus sign when negative.\<close>

fun str_nat :: "nat \<Rightarrow> string" where
  "str_nat n = (if n < 10 then [''0123456789'' ! n] else str_nat (n div 10) @ [''0123456789'' ! (n mod 10)])"

declare str_nat.simps [simp del]

definition py_str :: "scalar \<Rightarrow> string" where
  "py_str c = (case c of
     PStr s \<Rightarrow> s
   | PInt i \<Rightarrow> (if i < 0 then CHR ''-'' # str_nat (nat (- i)) else str_nat (nat i)))"

text \<open>Lines 78 to 81: the ids as a list of strings.\<close>

fun normalise :: "course_ids \<Rightarrow> string list" where
  "normalise (PyList cs) = map py_str cs"
| "normalise (PyTuple cs) = map py_str cs"
| "normalise (PySet cs) = map py_str cs"
| "normalise (Scalar c) = [py_str c]"

text \<open>
  \<^verbatim>\<open>v in course_ids\<close> for the list of strings of line 79 or 81: \<^verbatim>\<open>==\<close> between a string and
  a value that is not a string is false.
\<close>

fun py_in :: "json \<Rightarrow> string list \<Rightarrow> bool" where
  "py_in (JStr x) ids = (x \<in> set ids)"
| "py_in _ ids = False"

text \<open>
  The comprehension of lines 83 to 86 over the candidates in order; the first candidate
  whose \<^verbatim>\<open>["courseReferenceNumber"]\<close> raises ends it.
\<close>

fun ret_list :: "string list \<Rightarrow> json list \<Rightarrow> exn + json list" where
  "ret_list ids [] = Inr []"
| "ret_list ids (candidate # rest) =
     (case py_getitem candidate ''courseReferenceNumber'' of
        Inl e \<Rightarrow> Inl e
      | Inr v \<Rightarrow>
          (case ret_list ids rest of
             Inl e \<Rightarrow> Inl e
           | Inr kept \<Rightarrow> Inr (if py_in v ids then candidate # kept else kept)))"

section \<open>fetch\<close>

text \<open>
  What the GET of line 63 and the parse of line 64 give: \<^verbatim>\<open>requests.get\<close> raises, or
  \<^verbatim>\<open>response.json()\<close> raises, or the body parses to a value. The server is a function of
  the request that \<^verbatim>\<open>fetch\<close> sends: the URL, the query parameters and the headers.
\<close>

datatype reply = GetRaises | JsonRaises | Body json

type_synonym request_sent = "string \<times> (string \<rightharpoonup> scalar) \<times> (string \<rightharpoonup> string)"

type_synonym http = "request_sent \<Rightarrow> reply"

text \<open>The body of the \<^verbatim>\<open>try\<close>, lines 67 to 87.\<close>

definition fetch_try :: "snowcat \<Rightarrow> json \<Rightarrow> course_ids option \<Rightarrow> (exn + json) \<times> snowcat" where
  "fetch_try s response course_ids =
     (case py_getitem response ''data'' of
        Inl e \<Rightarrow> (Inl e, s)
      | Inr candidate_list \<Rightarrow>
          (let s1 = (if was_failed s then log (Info ''fetch'' ''link reinitiated successfully'') s else s)
           in case course_ids of
                None \<Rightarrow>
                  (if py_has_key ''success'' response then (Inr candidate_list, s1)
                   else
                     (let s2 = log (Error ''fetch'' ''failed to initiate link'' None) s1
                      in case py_getitem response ''success'' of
                           Inl e \<Rightarrow> (Inl e, s2)
                         | Inr st \<Rightarrow> (Inl (ValueError None st), s2)))
              | Some ids \<Rightarrow>
                  (case py_iter candidate_list of
                     Inl e \<Rightarrow> (Inl e, s1)
                   | Inr candidates \<Rightarrow>
                       (case ret_list (normalise ids) candidates of
                          Inl e \<Rightarrow> (Inl e, s1)
                        | Inr kept \<Rightarrow> (Inr (JArr kept), s1)))))"

text \<open>
  \<^verbatim>\<open>fetch\<close>, lines 60 to 91. The two parameters are written first; the GET and the parse
  are outside the \<^verbatim>\<open>try\<close>, so what they raise leaves \<^verbatim>\<open>fetch\<close> as it is. The handler of
  line 89 logs, then evaluates \<^verbatim>\<open>response['success']\<close> for its message: when that raises,
  the handler raises that exception and not the \<^verbatim>\<open>ValueError\<close>.
\<close>

definition fetch ::
  "snowcat \<Rightarrow> string \<Rightarrow> scalar \<Rightarrow> course_ids option \<Rightarrow> http \<Rightarrow> (exn + json) \<times> snowcat" where
  "fetch s course_abb course_num course_ids get =
     (let s1 = s\<lparr>params := (params s)(''txt_subject'' \<mapsto> PStr course_abb,
                                        ''txt_courseNumber'' \<mapsto> course_num)\<rparr>
      in case get (prefix, params s1, headers s1) of
           GetRaises \<Rightarrow> (Inl RequestException, s1)
         | JsonRaises \<Rightarrow> (Inl JSONDecodeError, s1)
         | Body response \<Rightarrow>
             (case fetch_try s1 response course_ids of
                (Inr r, s2) \<Rightarrow> (Inr r, s2)
              | (Inl e, s2) \<Rightarrow>
                  (let s3 = log (Error ''fetch'' ''failed to initiate link'' (Some e)) s2
                   in case py_getitem response ''success'' of
                        Inl e' \<Rightarrow> (Inl e', s3)
                      | Inr st \<Rightarrow> (Inl (ValueError (Some e) st), s3))))"

section \<open>Taking the credentials from the intercepted request\<close>

text \<open>
  The request Playwright intercepted: what \<^verbatim>\<open>req.all_headers()\<close> gives (a dict, or the
  exception the call raises) and \<^verbatim>\<open>req.url\<close>.
\<close>

record request =
  all_headers :: "exn + (string \<rightharpoonup> string)"
  url :: string

text \<open>
  \<^verbatim>\<open>parse_qs(urlparse(u).query)\<close> belongs to the standard library, so it is a parameter:
  from a URL to the dict of its query string (each key with the list of its values), or
  to the exception \<^verbatim>\<open>urlparse\<close> raises.
\<close>

type_synonym parse_query = "string \<Rightarrow> exn + (string \<rightharpoonup> string list)"

text \<open>Lines 101 to 103.\<close>

definition update_headers_from_request :: "snowcat \<Rightarrow> request option \<Rightarrow> exn + snowcat" where
  "update_headers_from_request s req =
     (case req of
        None \<Rightarrow> Inr s
      | Some r \<Rightarrow>
          (case all_headers r of
             Inl e \<Rightarrow> Inl e
           | Inr h \<Rightarrow> Inr (s\<lparr>headers := h\<rparr>)))"

text \<open>
  Lines 113 to 117. The condition of line 116 holds when the key is in \<^verbatim>\<open>qs\<close> and its
  list is not empty; then the first value is stored under the one key.
\<close>

definition update_params_from_request :: "parse_query \<Rightarrow> snowcat \<Rightarrow> request option \<Rightarrow> exn + snowcat" where
  "update_params_from_request pq s req =
     (case req of
        None \<Rightarrow> Inr s
      | Some r \<Rightarrow>
          (case pq (url r) of
             Inl e \<Rightarrow> Inl e
           | Inr qs \<Rightarrow>
               (case qs ''uniqueSessionId'' of
                  Some (v # vs) \<Rightarrow> Inr (s\<lparr>params := (params s)(''uniqueSessionId'' \<mapsto> PStr v)\<rparr>)
                | _ \<Rightarrow> Inr s)))"

section \<open>refresh\<close>

text \<open>
  The page during the two-factor wait, as one \<^verbatim>\<open>is_visible()\<close> call sees it: whether
  \<^verbatim>\<open>button.try-again-button\<close> and \<^verbatim>\<open>#trust-browser-button\<close> are visible. Every call
  of \<^verbatim>\<open>is_visible()\<close> looks at the page anew, so the loop reads a list of pages, one per
  call, in the order of the calls.
\<close>

record dom =
  try_again_btn :: bool
  trust_btn :: bool

datatype action =
    ClickTryAgain
  | WaitForLoadState
  | WaitForTimeout int
  | ClickTrust
  | ClickFirstResult

type_synonym observe = "dom list \<Rightarrow> (bool \<times> dom list) option"

text \<open>One \<^verbatim>\<open>is_visible()\<close> call; \<open>None\<close> when the list of pages has ended.\<close>

definition is_visible :: "(dom \<Rightarrow> bool) \<Rightarrow> observe" where
  "is_visible btn ds = (case ds of [] \<Rightarrow> None | d # ds' \<Rightarrow> Some (btn d, ds'))"

text \<open>Python's \<^verbatim>\<open>not\<close> and its \<^verbatim>\<open>and\<close>, which evaluates its right side only when the left is true.\<close>

definition py_not :: "observe \<Rightarrow> observe" where
  "py_not a ds = (case a ds of None \<Rightarrow> None | Some (x, ds') \<Rightarrow> Some (\<not> x, ds'))"

definition py_and :: "observe \<Rightarrow> observe \<Rightarrow> observe" where
  "py_and a b ds = (case a ds of None \<Rightarrow> None | Some (x, ds') \<Rightarrow> if x then b ds' else Some (False, ds'))"

datatype step = Continue "action list" | Break "action list"

text \<open>
  One pass through the body of the loop of line 158: the three conditions in their order,
  each with its own \<^verbatim>\<open>is_visible()\<close> calls. When none holds the body does nothing and
  the loop goes round again.
\<close>

definition duo_iter :: "int \<Rightarrow> dom list \<Rightarrow> (step \<times> dom list) option" where
  "duo_iter t ds =
     (case py_and (is_visible try_again_btn) (py_not (is_visible trust_btn)) ds of
        None \<Rightarrow> None
      | Some (c1, ds1) \<Rightarrow>
          if c1 then Some (Continue [ClickTryAgain, WaitForLoadState], ds1)
          else
            (case py_and (py_not (is_visible try_again_btn)) (py_not (is_visible trust_btn)) ds1 of
               None \<Rightarrow> None
             | Some (c2, ds2) \<Rightarrow>
                 if c2 then Some (Continue [WaitForTimeout (max 10 (t div 10))], ds2)
                 else
                   (case py_and (py_not (is_visible try_again_btn)) (is_visible trust_btn) ds2 of
                      None \<Rightarrow> None
                    | Some (c3, ds3) \<Rightarrow>
                        if c3 then Some (Break [ClickTrust], ds3)
                        else Some (Continue [], ds3))))"

lemma is_visible_shorter: "is_visible btn ds = Some (x, ds') \<Longrightarrow> length ds' < length ds"
  by (auto simp add: is_visible_def split: list.splits)

lemma py_not_shorter:
  "(\<And>x ds'. a ds = Some (x, ds') \<Longrightarrow> length ds' < length ds) \<Longrightarrow>
   py_not a ds = Some (y, ds'') \<Longrightarrow> length ds'' < length ds"
  by (auto simp add: py_not_def split: option.splits)

lemma py_and_shorter:
  assumes "\<And>x ds'. a ds = Some (x, ds') \<Longrightarrow> length ds' < length ds"
    and "\<And>ds1 x ds'. b ds1 = Some (x, ds') \<Longrightarrow> length ds' < length ds1"
    and "py_and a b ds = Some (y, ds'')"
  shows "length ds'' < length ds"
proof (cases "a ds")
  case None
  with assms(3) show ?thesis by (simp add: py_and_def)
next
  case (Some p)
  obtain x ds1 where p: "p = (x, ds1)" by (cases p)
  from assms(1) Some p have l1: "length ds1 < length ds" by simp
  show ?thesis
  proof (cases x)
    case True
    with assms(3) Some p have "b ds1 = Some (y, ds'')" by (simp add: py_and_def)
    from assms(2) [OF this] l1 show ?thesis by simp
  next
    case False
    with assms(3) Some p l1 show ?thesis by (simp add: py_and_def)
  qed
qed

lemma condition_shorter:
  "py_and (is_visible f) (py_not (is_visible g)) ds = Some (y, ds') \<Longrightarrow> length ds' < length ds"
  "py_and (py_not (is_visible f)) (py_not (is_visible g)) ds = Some (y, ds') \<Longrightarrow> length ds' < length ds"
  "py_and (py_not (is_visible f)) (is_visible g) ds = Some (y, ds') \<Longrightarrow> length ds' < length ds"
  by (erule py_and_shorter [rotated 2]; (erule py_not_shorter [rotated])?; erule is_visible_shorter)+

lemma duo_iter_shorter:
  assumes "duo_iter t ds = Some (st, ds')"
  shows "length ds' < length ds"
proof -
  from assms obtain c1 ds1 where
    c1: "py_and (is_visible try_again_btn) (py_not (is_visible trust_btn)) ds = Some (c1, ds1)"
    by (auto simp add: duo_iter_def split: option.splits)
  note l1 = condition_shorter(1) [OF c1]
  show ?thesis
  proof (cases c1)
    case True
    with assms c1 l1 show ?thesis by (simp add: duo_iter_def)
  next
    case n1: False
    with assms c1 obtain c2 ds2 where
      c2: "py_and (py_not (is_visible try_again_btn)) (py_not (is_visible trust_btn)) ds1 = Some (c2, ds2)"
      by (auto simp add: duo_iter_def split: option.splits)
    note l2 = condition_shorter(2) [OF c2]
    show ?thesis
    proof (cases c2)
      case True
      with assms c1 n1 c2 l1 l2 show ?thesis by (simp add: duo_iter_def)
    next
      case n2: False
      with assms c1 n1 c2 obtain c3 ds3 where
        c3: "py_and (py_not (is_visible try_again_btn)) (is_visible trust_btn) ds2 = Some (c3, ds3)"
        by (auto simp add: duo_iter_def split: option.splits)
      note l3 = condition_shorter(3) [OF c3]
      from assms c1 n1 c2 n2 c3 l1 l2 l3 show ?thesis
        by (auto simp add: duo_iter_def split: if_splits)
    qed
  qed
qed

datatype loop_end = Exited | Polling

text \<open>
  The \<^verbatim>\<open>while True\<close> of line 158, run on the pages its \<^verbatim>\<open>is_visible()\<close> calls see:
  the browser actions it performs, and whether it has left through \<^verbatim>\<open>break\<close> or is
  still going round when the list of pages ends. The clicks and waits of the loop are
  listed as they are issued and taken to return.
\<close>

function duo_wait :: "int \<Rightarrow> dom list \<Rightarrow> action list \<times> loop_end" where
  "duo_wait t ds =
     (case duo_iter t ds of
        None \<Rightarrow> ([], Polling)
      | Some (Break acts, ds') \<Rightarrow> (acts, Exited)
      | Some (Continue acts, ds') \<Rightarrow> (case duo_wait t ds' of (later, r) \<Rightarrow> (acts @ later, r)))"
  by pat_completeness auto
termination
  by (relation "measure (\<lambda>(t, ds). length ds)") (auto dest: duo_iter_shorter)

declare duo_wait.simps [simp del]

text \<open>
  The \<^verbatim>\<open>while True\<close> of line 183, run on the values \<^verbatim>\<open>results.count()\<close> takes, one per
  evaluation of line 184.
\<close>

fun pick_result :: "int \<Rightarrow> nat list \<Rightarrow> action list \<times> loop_end" where
  "pick_result t [] = ([], Polling)"
| "pick_result t (c # cs) =
     (if c = 1 then ([ClickFirstResult], Exited)
      else (case pick_result t cs of (later, r) \<Rightarrow> (WaitForTimeout (max 10 (t div 100)) # later, r)))"

text \<open>
  The browser of one \<^verbatim>\<open>refresh\<close>. The straight-line steps are given by what they raise,
  if anything: lines 138 to 152 (launch, open the page, log in), lines 170 to 181 (choose
  the term, type the subject), lines 199 and 200 (close). The two loops read their
  lists. \<^verbatim>\<open>intercepted\<close> is \<^verbatim>\<open>req_info.value\<close> after the course number has been typed
  (lines 191 to 193), for the subject and the number typed, or the exception raised there.
\<close>

record browser =
  login_steps :: "exn option"
  duo_dom :: "dom list"
  term_steps :: "exn option"
  result_counts :: "nat list"
  intercepted :: "string \<Rightarrow> string \<Rightarrow> exn + request option"
  close_steps :: "exn option"

text \<open>
  How a call ends: it returns, it raises, a loop of \<^verbatim>\<open>refresh\<close> is still polling when
  its list ends (\<^verbatim>\<open>refresh\<close> has not returned), or the loop of \<^verbatim>\<open>watch\<close> is still going
  round when its list of iterations ends.
\<close>

datatype outcome = Returned | Raised exn | StillPolling | StillWatching

text \<open>\<^verbatim>\<open>refresh\<close>, lines 134 to 202.\<close>

definition refresh ::
  "parse_query \<Rightarrow> snowcat \<Rightarrow> string \<Rightarrow> scalar \<Rightarrow> int \<Rightarrow> browser \<Rightarrow> outcome \<times> snowcat" where
  "refresh pq s course_field course_num t b =
     (let s1 = log (Info ''refresh'' ''Token is expired, start fetching new token'') s
      in case login_steps b of
           Some e \<Rightarrow> (Raised e, s1)
         | None \<Rightarrow>
       (case duo_wait t (duo_dom b) of
           (acts, Polling) \<Rightarrow> (StillPolling, s1)
         | (acts, Exited) \<Rightarrow>
       (case term_steps b of
           Some e \<Rightarrow> (Raised e, s1)
         | None \<Rightarrow>
       (case pick_result t (result_counts b) of
           (acts, Polling) \<Rightarrow> (StillPolling, s1)
         | (acts, Exited) \<Rightarrow>
       (case intercepted b course_field (py_str course_num) of
           Inl e \<Rightarrow> (Raised e, s1)
         | Inr req \<Rightarrow>
       (case update_headers_from_request s1 req of
           Inl e \<Rightarrow> (Raised e, s1)
         | Inr s2 \<Rightarrow>
       (case update_params_from_request pq s2 req of
           Inl e \<Rightarrow> (Raised e, s2)
         | Inr s3 \<Rightarrow>
       (case close_steps b of
           Some e \<Rightarrow> (Raised e, s3)
         | None \<Rightarrow> (Returned, log (Info ''refresh'' ''Token successfully refreshed'') s3)))))))))"

text \<open>
  The browser \<open>b\<close> reaches line 193 with \<open>req\<close> as the intercepted request: no step before it
  raises and both loops are left.
\<close>

definition captures :: "int \<Rightarrow> string \<Rightarrow> scalar \<Rightarrow> browser \<Rightarrow> request option \<Rightarrow> bool" where
  "captures t subject number b req \<longleftrightarrow>
     login_steps b = None \<and> snd (duo_wait t (duo_dom b)) = Exited \<and> term_steps b = None \<and>
     snd (pick_result t (result_counts b)) = Exited \<and>
     intercepted b subject (py_str number) = Inr req"

section \<open>watch\<close>

text \<open>
  The arguments of \<^verbatim>\<open>watch\<close>. The callback is given by what it does with a result: it
  returns (\<open>None\<close>) or raises.
\<close>

record target =
  course_field :: string
  course_abb :: string
  course_num :: scalar
  course_ids :: "course_ids option"
  on_trigger :: "json \<Rightarrow> exn option"
  interval :: int
  timeout :: int

text \<open>The world during one pass of the loop: the server that answers the GET, and the browser should \<^verbatim>\<open>refresh\<close> be called.\<close>

record iteration =
  server :: http
  browser :: browser

datatype event =
    Fetch "exn + json"
  | Trigger json
  | Sleep int
  | Refresh
  | MessageBeep

datatype flow = Next | Stop outcome

text \<open>
  One pass through the body of the loop of line 247: what happened, whether the loop goes
  round again, and the object afterwards. The \<^verbatim>\<open>time.sleep(interval)\<close> of line 265 is
  outside the \<^verbatim>\<open>try\<close>: for a negative interval it raises, and \<^verbatim>\<open>watch\<close> ends in that
  exception.
\<close>

definition watch_iter :: "parse_query \<Rightarrow> target \<Rightarrow> snowcat \<Rightarrow> iteration \<Rightarrow> event list \<times> flow \<times> snowcat" where
  "watch_iter pq tg s it =
     (case fetch s (course_abb tg) (course_num tg) (course_ids tg) (server it) of
        (Inr response_list, s1) \<Rightarrow>
          (let s2 = s1\<lparr>was_failed := False\<rparr>
           in case on_trigger tg response_list of
                Some e \<Rightarrow> ([Fetch (Inr response_list), Trigger response_list], Stop (Raised e), s2)
              | None \<Rightarrow>
                  if interval tg < 0
                  then ([Fetch (Inr response_list), Trigger response_list], Stop (Raised SleepValueError), s2)
                  else ([Fetch (Inr response_list), Trigger response_list, Sleep (interval tg)], Next, s2))
      | (Inl e, s1) \<Rightarrow>
          if was_failed s1 then
            ([Fetch (Inl e), MessageBeep], Stop Returned, log (Error ''SnowCat'' ''Exit due to'' (Some e)) s1)
          else
            (let s2 = s1\<lparr>was_failed := True\<rparr>
             in case refresh pq s2 (course_field tg) (course_num tg) (timeout tg) (browser it) of
                  (Returned, s3) \<Rightarrow> ([Fetch (Inl e), Refresh], Next, s3)
                | (out, s3) \<Rightarrow> ([Fetch (Inl e), Refresh], Stop out, s3)))"

text \<open>The loop of \<^verbatim>\<open>watch\<close>, lines 247 to 265, over the passes the list provides for.\<close>

fun watch :: "parse_query \<Rightarrow> target \<Rightarrow> snowcat \<Rightarrow> iteration list \<Rightarrow> event list \<times> outcome \<times> snowcat" where
  "watch pq tg s [] = ([], StillWatching, s)"
| "watch pq tg s (it # its) =
     (case watch_iter pq tg s it of
        (evs, Stop out, s') \<Rightarrow> (evs, out, s')
      | (evs, Next, s') \<Rightarrow> (case watch pq tg s' its of (later, out, s'') \<Rightarrow> (evs @ later, out, s'')))"

section \<open>Example inputs\<close>

text \<open>The four pages the two buttons can make.\<close>

definition retry_only :: dom where
  "retry_only = \<lparr>try_again_btn = True, trust_btn = False\<rparr>"

definition neither_visible :: dom where
  "neither_visible = \<lparr>try_again_btn = False, trust_btn = False\<rparr>"

definition trust_only :: dom where
  "trust_only = \<lparr>try_again_btn = False, trust_btn = True\<rparr>"

definition both_visible :: dom where
  "both_visible = \<lparr>try_again_btn = True, trust_btn = True\<rparr>"

text \<open>
  Two intercepted URLs, one with a session identifier and one without, and a parser that
  knows their query strings.
\<close>

definition example_url :: string where
  "example_url = ''https://banner.apps.uillinois.edu/StudentRegistrationSSB/ssb/searchResults/searchResults?txt_subject=CS&uniqueSessionId=abc123&foo=1''"

definition plain_url :: string where
  "plain_url = ''https://banner.apps.uillinois.edu/StudentRegistrationSSB/ssb/searchResults/searchResults?txt_subject=CS&pageOffset=0''"

definition example_pq :: parse_query where
  "example_pq u =
     (if u = example_url
      then Inr [''txt_subject'' \<mapsto> [''CS''], ''uniqueSessionId'' \<mapsto> [''abc123''], ''foo'' \<mapsto> [''1'']]
      else if u = plain_url
      then Inr [''txt_subject'' \<mapsto> [''CS''], ''pageOffset'' \<mapsto> [''0'']]
      else Inl UrlError)"

definition example_request :: "string \<Rightarrow> request" where
  "example_request u = \<lparr>all_headers = Inr [''cookie'' \<mapsto> ''JSESSIONID=1''], url = u\<rparr>"

text \<open>
  A browser in which the trust button is there at once, the suggestions narrow from three
  to one, and \<open>req\<close> is what is intercepted.
\<close>

definition example_browser :: "request option \<Rightarrow> browser" where
  "example_browser req =
     \<lparr>login_steps = None, duo_dom = replicate 5 trust_only, term_steps = None,
      result_counts = [3, 1], intercepted = (\<lambda>subject number. Inr req), close_steps = None\<rparr>"

text \<open>A section with no free seat, a server that lists it, and a server whose session has expired.\<close>

definition seat :: json where
  "seat = JObj [(''courseReferenceNumber'', JStr ''31375''), (''seatsAvailable'', JNum 0)]"

definition open_server :: http where
  "open_server rq = Body (JObj [(''success'', JBool True), (''data'', JArr [seat])])"

definition expired_server :: http where
  "expired_server rq = Body (JObj [(''success'', JBool False), (''data'', JNull)])"

text \<open>The run of lines 269 to 278, with a callback that returns.\<close>

definition example_target :: target where
  "example_target =
     \<lparr>course_field = ''Computer Science'', course_abb = ''CS'', course_num = PInt 421,
      course_ids = Some (Scalar (PInt 31375)), on_trigger = (\<lambda>response_list. None),
      interval = 15, timeout = 10000\<rparr>"

definition good :: iteration where
  "good = \<lparr>server = open_server, browser = example_browser None\<rparr>"

definition bad :: iteration where
  "bad = \<lparr>server = expired_server, browser = example_browser (Some (example_request example_url))\<rparr>"

text \<open>An object that still holds the session identifier of an earlier refresh.\<close>

definition stale :: snowcat where
  "stale = init\<lparr>params := [''txt_subject'' \<mapsto> PStr ''CS'', ''txt_courseNumber'' \<mapsto> PInt 421,
                           ''uniqueSessionId'' \<mapsto> PStr ''expired'']\<rparr>"

section \<open>What fetch leaves unchanged\<close>

lemma fetch_try_frame:
  "fetch_try s r ids = (res, s') \<Longrightarrow>
     params s' = params s \<and> headers s' = headers s \<and> was_failed s' = was_failed s"
  by (auto simp add: fetch_try_def log_def Let_def split: sum.splits option.splits if_splits)

lemma fetch_frame:
  assumes "fetch s a n ids g = (res, s')"
  shows "params s' = (params s)(''txt_subject'' \<mapsto> PStr a, ''txt_courseNumber'' \<mapsto> n)
    \<and> headers s' = headers s \<and> was_failed s' = was_failed s"
proof -
  let ?s1 = "s\<lparr>params := (params s)(''txt_subject'' \<mapsto> PStr a, ''txt_courseNumber'' \<mapsto> n)\<rparr>"
  show ?thesis
  proof (cases "g (prefix, params ?s1, headers ?s1)")
    case (Body r)
    obtain res2 s2 where ft: "fetch_try ?s1 r ids = (res2, s2)"
      by (cases "fetch_try ?s1 r ids")
    from fetch_try_frame [OF ft]
    have "params s2 = params ?s1" "headers s2 = headers ?s1" "was_failed s2 = was_failed ?s1"
      by simp_all
    then show ?thesis using assms Body ft
      by (cases res2) (auto simp add: fetch_def log_def Let_def split: sum.splits)
  next
    case GetRaises
    then show ?thesis using assms by (auto simp add: fetch_def)
  next
    case JsonRaises
    then show ?thesis using assms by (auto simp add: fetch_def)
  qed
qed

section \<open>fetch and the success field\<close>

text \<open>
  Claim C1. A response whose \<open>success\<close> is false should make \<^verbatim>\<open>fetch\<close> raise. With
  \<^verbatim>\<open>course_ids = None\<close> line 72 asks whether the key \<open>success\<close> is there, not what it
  holds: the value of \<open>data\<close> is returned although \<open>success\<close> is false. With an id given
  the field is not read at all, and the matching candidates are returned.
\<close>

theorem fetch_success_false_returns:
  "fst (fetch s a n None (\<lambda>rq. Body (JObj [(''success'', JBool False), (''data'', d)]))) = Inr d
   \<and> fst (fetch s a n (Some (Scalar (PInt 31375)))
        (\<lambda>rq. Body (JObj [(''success'', JBool False), (''data'', JArr [seat])]))) = Inr (JArr [seat])"
  by (simp add: fetch_def fetch_try_def Let_def seat_def py_str_def str_nat.simps)

text \<open>
  Claim C2. A missing field should surface as the \<^verbatim>\<open>ValueError\<close> of line 91. When the key
  \<open>success\<close> is missing, the message of that very \<^verbatim>\<open>ValueError\<close> cannot be built:
  \<^verbatim>\<open>response['success']\<close> raises inside the handler, and \<^verbatim>\<open>fetch\<close> ends in a
  \<^verbatim>\<open>KeyError\<close>, whether \<open>data\<close> is there or not. A body that does not parse raises at
  line 64, before the \<^verbatim>\<open>try\<close>: the exception of \<^verbatim>\<open>response.json()\<close> leaves \<^verbatim>\<open>fetch\<close> as
  it is (in Python it is a subclass of \<^verbatim>\<open>ValueError\<close>, raised by the library).
\<close>

theorem fetch_missing_success_raises_KeyError:
  "fst (fetch s a n None (\<lambda>rq. Body (JObj [(''data'', d)]))) = Inl (KeyError ''success'')
   \<and> fst (fetch s a n ids (\<lambda>rq. Body (JObj []))) = Inl (KeyError ''success'')
   \<and> fst (fetch s a n ids (\<lambda>rq. JsonRaises)) = Inl JSONDecodeError"
  by (simp add: fetch_def fetch_try_def Let_def)

text \<open>
  Where the wrapping works: when the body is a dict that has the key \<open>success\<close>, whatever
  fails inside the \<^verbatim>\<open>try\<close> leaves \<^verbatim>\<open>fetch\<close> as a \<^verbatim>\<open>ValueError\<close> that carries the
  failure and the value of \<open>success\<close>.
\<close>

lemma fetch_wraps_when_success_present:
  assumes "py_getitem response ''success'' = Inr st"
    and "fetch s a n ids (\<lambda>rq. Body response) = (Inl e, s')"
  shows "\<exists>cause. e = ValueError (Some cause) st"
  using assms by (auto simp add: fetch_def Let_def split: prod.splits sum.splits)

section \<open>fetch and the query parameters\<close>

text \<open>
  Claim C9. Every call of \<^verbatim>\<open>fetch\<close> writes \<open>txt_subject\<close> and \<open>txt_courseNumber\<close> into
  the parameters of the object before the GET: the request the server sees carries them,
  and the object keeps them however the call ends, whether it returns a list or raises.
\<close>

theorem fetch_writes_params_first:
  "params (snd (fetch s a n ids g)) = (params s)(''txt_subject'' \<mapsto> PStr a, ''txt_courseNumber'' \<mapsto> n)
   \<and> fetch s a n ids g =
       fetch s a n ids
         (\<lambda>rq. g (prefix, (params s)(''txt_subject'' \<mapsto> PStr a, ''txt_courseNumber'' \<mapsto> n), headers s))"
proof
  obtain res s' where f: "fetch s a n ids g = (res, s')"
    by (cases "fetch s a n ids g")
  from fetch_frame [OF f] f
  show "params (snd (fetch s a n ids g)) = (params s)(''txt_subject'' \<mapsto> PStr a, ''txt_courseNumber'' \<mapsto> n)"
    by simp
next
  show "fetch s a n ids g =
       fetch s a n ids
         (\<lambda>rq. g (prefix, (params s)(''txt_subject'' \<mapsto> PStr a, ''txt_courseNumber'' \<mapsto> n), headers s))"
    by (simp add: fetch_def)
qed

section \<open>fetch and the forms of course\_ids\<close>

lemma py_in_set: "set ids = set ids' \<Longrightarrow> py_in v ids = py_in v ids'"
  by (cases v) simp_all

lemma ret_list_set: "set ids = set ids' \<Longrightarrow> ret_list ids cs = ret_list ids' cs"
proof (induction cs)
  case Nil
  show ?case by simp
next
  case (Cons c cs)
  from Cons.prems have "py_in v ids = py_in v ids'" for v
    by (rule py_in_set)
  with Cons show ?case by (simp split: sum.splits)
qed

lemma fetch_try_same_ids:
  assumes "set (normalise c) = set (normalise c')"
  shows "fetch_try s r (Some c) = fetch_try s r (Some c')"
proof -
  have "ret_list (normalise c) cs = ret_list (normalise c') cs" for cs
    using assms by (rule ret_list_set)
  then show ?thesis by (simp add: fetch_try_def split: sum.splits)
qed

lemma fetch_same_ids:
  assumes "set (normalise c) = set (normalise c')"
  shows "fetch s a n (Some c) g = fetch s a n (Some c') g"
  unfolding fetch_def fetch_try_same_ids [OF assms] ..

lemma py_str_PStr: "py_str (PStr (py_str x)) = py_str x"
  by (simp add: py_str_def)

text \<open>
  Claim C6. The same ids give the same result of \<^verbatim>\<open>fetch\<close> (the value returned or the
  exception raised, and the object afterwards) in every form: a tuple or a list \<open>xs\<close>, the
  set of the elements of \<open>xs\<close> in whatever order \<open>ys\<close> iterating it yields them, one scalar
  \<open>x\<close> or the list, tuple or set that holds just \<open>x\<close>, and each id as the integer or as the
  string \<^verbatim>\<open>str\<close> makes of it.
\<close>

theorem fetch_ids_any_form:
  assumes "set ys = set xs"
  shows "fetch s a n (Some (PyTuple xs)) g = fetch s a n (Some (PyList xs)) g
       \<and> fetch s a n (Some (PySet ys)) g = fetch s a n (Some (PyList xs)) g
       \<and> fetch s a n (Some (Scalar x)) g = fetch s a n (Some (PyList [x])) g
       \<and> fetch s a n (Some (Scalar x)) g = fetch s a n (Some (PyTuple [x])) g
       \<and> fetch s a n (Some (Scalar x)) g = fetch s a n (Some (PySet [x])) g
       \<and> fetch s a n (Some (Scalar (PStr (py_str x)))) g = fetch s a n (Some (Scalar x)) g
       \<and> fetch s a n (Some (PyList (map (\<lambda>x. PStr (py_str x)) xs))) g = fetch s a n (Some (PyList xs)) g"
proof -
  have "set (normalise (PySet ys)) = set (normalise (PyList xs))"
    using assms by simp
  then have "fetch s a n (Some (PySet ys)) g = fetch s a n (Some (PyList xs)) g"
    by (rule fetch_same_ids)
  moreover have "fetch s a n (Some (PyList (map (\<lambda>x. PStr (py_str x)) xs))) g = fetch s a n (Some (PyList xs)) g"
    by (rule fetch_same_ids) (simp add: py_str_PStr comp_def)
  moreover have "fetch s a n (Some (Scalar (PStr (py_str x)))) g = fetch s a n (Some (Scalar x)) g"
    by (rule fetch_same_ids) (simp add: py_str_PStr)
  moreover have "fetch s a n (Some (PyTuple xs)) g = fetch s a n (Some (PyList xs)) g"
    "fetch s a n (Some (Scalar x)) g = fetch s a n (Some (PyList [x])) g"
    "fetch s a n (Some (Scalar x)) g = fetch s a n (Some (PyTuple [x])) g"
    "fetch s a n (Some (Scalar x)) g = fetch s a n (Some (PySet [x])) g"
    by (rule fetch_same_ids, simp)+
  ultimately show ?thesis by simp
qed

theorem fetch_ids_any_form_witness:
  "set [PStr ''12345'', PInt 31375] = set [PInt 31375, PStr ''12345'', PInt 31375]
   \<and> fetch init ''CS'' (PInt 421) (Some (PySet [PStr ''12345'', PInt 31375])) open_server
       = fetch init ''CS'' (PInt 421) (Some (PyList [PInt 31375, PStr ''12345'', PInt 31375])) open_server
   \<and> fetch init ''CS'' (PInt 421) (Some (Scalar (PStr (py_str (PInt 31375))))) open_server
       = fetch init ''CS'' (PInt 421) (Some (Scalar (PInt 31375))) open_server
   \<and> fst (fetch init ''CS'' (PInt 421) (Some (Scalar (PInt 31375))) open_server) = Inr (JArr [seat])
   \<and> fst (fetch init ''CS'' (PInt 421) (Some (Scalar (PInt 12345))) open_server) = Inr (JArr [])"
proof -
  have h: "set [PStr ''12345'', PInt 31375] = set [PInt 31375, PStr ''12345'', PInt 31375]"
    by auto
  have "fst (fetch init ''CS'' (PInt 421) (Some (Scalar (PInt 31375))) open_server) = Inr (JArr [seat])"
    "fst (fetch init ''CS'' (PInt 421) (Some (Scalar (PInt 12345))) open_server) = Inr (JArr [])"
    by (simp_all add: fetch_def fetch_try_def open_server_def Let_def seat_def py_str_def str_nat.simps)
  with h fetch_ids_any_form [OF h, of init "''CS''" "PInt 421" open_server "PInt 31375"]
  show ?thesis by simp
qed

section \<open>The credentials after refresh\<close>

text \<open>
  Claim C7, as the code has it. When the query string of the intercepted URL parses to
  \<open>qs\<close>: if \<open>qs\<close> has \<open>uniqueSessionId\<close> with a list that starts with \<open>v\<close>, the helper
  returns with \<open>v\<close> stored under \<open>uniqueSessionId\<close> and nothing else changed; if \<open>qs\<close> has
  no such key, the helper returns the object as it was. So the key is absent afterwards
  only when it was absent before, a key stored by an earlier refresh keeps its value, and
  no empty string is stored.
\<close>

theorem update_params_session_id:
  assumes "pq (url r) = Inr qs"
  shows "(qs ''uniqueSessionId'' = Some (v # vs) \<longrightarrow>
            update_params_from_request pq s (Some r)
              = Inr (s\<lparr>params := (params s)(''uniqueSessionId'' \<mapsto> PStr v)\<rparr>))
       \<and> (qs ''uniqueSessionId'' = None \<longrightarrow>
            update_params_from_request pq s (Some r) = Inr s)"
  using assms by (simp add: update_params_from_request_def)

theorem update_params_session_id_witness:
  "example_pq (url (example_request example_url))
     = Inr [''txt_subject'' \<mapsto> [''CS''], ''uniqueSessionId'' \<mapsto> [''abc123''], ''foo'' \<mapsto> [''1'']]
   \<and> update_params_from_request example_pq init (Some (example_request example_url))
     = Inr (init\<lparr>params := (params init)(''uniqueSessionId'' \<mapsto> PStr ''abc123'')\<rparr>)
   \<and> example_pq (url (example_request plain_url))
     = Inr [''txt_subject'' \<mapsto> [''CS''], ''pageOffset'' \<mapsto> [''0'']]
   \<and> update_params_from_request example_pq init (Some (example_request plain_url)) = Inr init
   \<and> params init ''uniqueSessionId'' = None
   \<and> update_params_from_request example_pq stale (Some (example_request example_url))
     = Inr (stale\<lparr>params := (params stale)(''uniqueSessionId'' \<mapsto> PStr ''abc123'')\<rparr>)
   \<and> update_params_from_request example_pq stale (Some (example_request plain_url)) = Inr stale"
proof -
  let ?qs1 = "[''txt_subject'' \<mapsto> [''CS''], ''uniqueSessionId'' \<mapsto> [''abc123''], ''foo'' \<mapsto> [''1'']]"
  let ?qs2 = "[''txt_subject'' \<mapsto> [''CS''], ''pageOffset'' \<mapsto> [''0'']]"
  have p1: "example_pq (url (example_request example_url)) = Inr ?qs1"
    by (simp add: example_pq_def example_request_def)
  have p2: "example_pq (url (example_request plain_url)) = Inr ?qs2"
    by (simp add: example_pq_def example_request_def example_url_def plain_url_def)
  have k1: "?qs1 ''uniqueSessionId'' = Some [''abc123'']" by simp
  have k2: "?qs2 ''uniqueSessionId'' = None" by simp
  from update_params_session_id
         [where pq = example_pq and r = "example_request example_url" and qs = ?qs1
            and v = "''abc123''" and vs = "[]" and s = init, OF p1] k1
  have u1: "update_params_from_request example_pq init (Some (example_request example_url))
     = Inr (init\<lparr>params := (params init)(''uniqueSessionId'' \<mapsto> PStr ''abc123'')\<rparr>)"
    by blast
  from update_params_session_id
         [where pq = example_pq and r = "example_request plain_url" and qs = ?qs2
            and v = "''abc123''" and vs = "[]" and s = init, OF p2] k2
  have u2: "update_params_from_request example_pq init (Some (example_request plain_url)) = Inr init"
    by blast
  from update_params_session_id
         [where pq = example_pq and r = "example_request example_url" and qs = ?qs1
            and v = "''abc123''" and vs = "[]" and s = stale, OF p1] k1
  have u3: "update_params_from_request example_pq stale (Some (example_request example_url))
     = Inr (stale\<lparr>params := (params stale)(''uniqueSessionId'' \<mapsto> PStr ''abc123'')\<rparr>)"
    by blast
  from update_params_session_id
         [where pq = example_pq and r = "example_request plain_url" and qs = ?qs2
            and v = "''abc123''" and vs = "[]" and s = stale, OF p2] k2
  have u4: "update_params_from_request example_pq stale (Some (example_request plain_url)) = Inr stale"
    by blast
  have "params init ''uniqueSessionId'' = None" by (simp add: init_def)
  with p1 p2 u1 u2 u3 u4 show ?thesis by blast
qed

text \<open>
  Claim C7, as the specification has it, fails in its second half. The object holds the
  session identifier of an earlier refresh; the intercepted URL has no \<open>uniqueSessionId\<close>
  in its query string. The helper returns the object as it was: the key is not absent
  afterwards, it still holds the earlier identifier.
\<close>

theorem update_params_keeps_earlier_id_counterexample:
  "example_pq (url (example_request plain_url))
     = Inr [''txt_subject'' \<mapsto> [''CS''], ''pageOffset'' \<mapsto> [''0'']]
   \<and> [''txt_subject'' \<mapsto> [''CS''], ''pageOffset'' \<mapsto> [''0'']] ''uniqueSessionId'' = None
   \<and> update_params_from_request example_pq stale (Some (example_request plain_url)) = Inr stale
   \<and> params stale ''uniqueSessionId'' = Some (PStr ''expired'')"
proof -
  have p: "example_pq plain_url = Inr [''txt_subject'' \<mapsto> [''CS''], ''pageOffset'' \<mapsto> [''0'']]"
    by (simp add: example_pq_def example_url_def plain_url_def)
  have "update_params_from_request example_pq stale (Some (example_request plain_url)) = Inr stale"
    by (simp add: update_params_from_request_def example_request_def p)
  moreover have "params stale ''uniqueSessionId'' = Some (PStr ''expired'')"
    by (simp add: stale_def init_def)
  ultimately show ?thesis using p by (simp add: example_request_def)
qed

text \<open>Once the browser has reached line 193, \<^verbatim>\<open>refresh\<close> is the two helpers, the closing and the last log line.\<close>

lemma refresh_captures:
  assumes "captures t f n b req"
  shows "refresh pq s f n t b =
     (let s1 = log (Info ''refresh'' ''Token is expired, start fetching new token'') s
      in case update_headers_from_request s1 req of
           Inl e \<Rightarrow> (Raised e, s1)
         | Inr s2 \<Rightarrow>
       (case update_params_from_request pq s2 req of
           Inl e \<Rightarrow> (Raised e, s2)
         | Inr s3 \<Rightarrow>
       (case close_steps b of
           Some e \<Rightarrow> (Raised e, s3)
         | None \<Rightarrow> (Returned, log (Info ''refresh'' ''Token successfully refreshed'') s3))))"
proof -
  obtain a1 where d: "duo_wait t (duo_dom b) = (a1, Exited)"
    using assms by (cases "duo_wait t (duo_dom b)") (simp add: captures_def)
  obtain a2 where p: "pick_result t (result_counts b) = (a2, Exited)"
    using assms by (cases "pick_result t (result_counts b)") (simp add: captures_def)
  from assms d p show ?thesis by (simp add: refresh_def captures_def)
qed

lemmas observe_defs = is_visible_def py_not_def py_and_def duo_iter_def

lemma duo_iter_trust_only:
  "duo_iter t (trust_only # trust_only # trust_only # trust_only # trust_only # ds)
     = Some (Break [ClickTrust], ds)"
  by (simp add: observe_defs trust_only_def)

lemma duo_wait_trust_only: "duo_wait t (replicate 5 trust_only @ ds) = ([ClickTrust], Exited)"
  by (simp add: numeral_eq_Suc duo_wait.simps duo_iter_trust_only)

lemma example_captures: "captures t f n (example_browser req) req"
  using duo_wait_trust_only [of t "[]"] by (simp add: captures_def example_browser_def)

lemma example_closes: "close_steps (example_browser req) = None"
  by (simp add: example_browser_def)

text \<open>
  Claim C10. Handed \<^verbatim>\<open>None\<close>, both helpers return and leave the object as it is; so a
  \<^verbatim>\<open>refresh\<close> whose browser reaches line 193 with \<^verbatim>\<open>req = None\<close> and closes returns
  without raising, with the headers and the parameters unchanged.
\<close>

theorem update_from_None_request:
  "update_headers_from_request s None = Inr s
   \<and> update_params_from_request pq s None = Inr s
   \<and> (captures t f n b None \<and> close_steps b = None \<longrightarrow>
        (\<exists>s'. refresh pq s f n t b = (Returned, s') \<and> headers s' = headers s \<and> params s' = params s))"
proof -
  have h: "update_headers_from_request s0 None = Inr s0" for s0
    by (simp add: update_headers_from_request_def)
  have p: "update_params_from_request pq s0 None = Inr s0" for s0
    by (simp add: update_params_from_request_def)
  have "\<exists>s'. refresh pq s f n t b = (Returned, s') \<and> headers s' = headers s \<and> params s' = params s"
    if c: "captures t f n b None" and cl: "close_steps b = None"
    by (simp add: refresh_captures [OF c] cl h p log_def)
  with h p show ?thesis by blast
qed

theorem update_from_None_request_witness:
  "captures 10000 ''Computer Science'' (PInt 421) (example_browser None) None
   \<and> close_steps (example_browser None) = None
   \<and> fst (refresh example_pq stale ''Computer Science'' (PInt 421) 10000 (example_browser None)) = Returned
   \<and> headers (snd (refresh example_pq stale ''Computer Science'' (PInt 421) 10000 (example_browser None)))
       = headers stale
   \<and> params (snd (refresh example_pq stale ''Computer Science'' (PInt 421) 10000 (example_browser None)))
       = params stale"
proof -
  have c: "captures 10000 ''Computer Science'' (PInt 421) (example_browser None) None"
    by (rule example_captures)
  have cl: "close_steps (example_browser None) = None"
    by (simp add: example_browser_def)
  from update_from_None_request [of stale example_pq 10000 "''Computer Science''" "PInt 421" "example_browser None"] c cl
  obtain s' where "refresh example_pq stale ''Computer Science'' (PInt 421) 10000 (example_browser None) = (Returned, s')"
    "headers s' = headers stale" "params s' = params stale"
    by blast
  with c cl show ?thesis by simp
qed

text \<open>
  Claim C5, as the code has it. After a \<^verbatim>\<open>refresh\<close> that returns with the intercepted
  request \<open>r\<close>, the headers are those of \<open>r\<close> and nothing of the old headers is kept. The
  parameters are not replaced: they are the old parameters, with \<open>uniqueSessionId\<close> set
  to the first value the URL of \<open>r\<close> gives for it when it gives one.
\<close>

theorem refresh_replaces_headers_updates_params:
  assumes "refresh pq s f n t b = (Returned, s')"
    and "intercepted b f (py_str n) = Inr (Some r)"
  shows "\<exists>h qs. all_headers r = Inr h \<and> pq (url r) = Inr qs \<and> headers s' = h
           \<and> params s' = (case qs ''uniqueSessionId'' of
                             Some (v # vs) \<Rightarrow> (params s)(''uniqueSessionId'' \<mapsto> PStr v)
                           | _ \<Rightarrow> params s)"
proof -
  from assms(1) have c: "captures t f n b (Some r)"
    using assms(2)
    by (auto simp add: refresh_def captures_def Let_def split: option.splits prod.splits loop_end.splits)
  from assms(1) show ?thesis
    unfolding refresh_captures [OF c]
    by (auto simp add: Let_def log_def update_headers_from_request_def update_params_from_request_def
        split: sum.splits option.splits list.splits)
qed

theorem refresh_replaces_headers_updates_params_witness:
  "fst (refresh example_pq stale ''Computer Science'' (PInt 421) 10000
          (example_browser (Some (example_request example_url)))) = Returned
   \<and> headers (snd (refresh example_pq stale ''Computer Science'' (PInt 421) 10000
          (example_browser (Some (example_request example_url))))) = [''cookie'' \<mapsto> ''JSESSIONID=1'']
   \<and> params (snd (refresh example_pq stale ''Computer Science'' (PInt 421) 10000
          (example_browser (Some (example_request example_url)))))
       = (params stale)(''uniqueSessionId'' \<mapsto> PStr ''abc123'')"
proof -
  let ?b = "example_browser (Some (example_request example_url))"
  let ?r = "refresh example_pq stale ''Computer Science'' (PInt 421) 10000 ?b"
  have ret: "fst ?r = Returned"
    by (simp add: refresh_captures [OF example_captures] update_headers_from_request_def
        update_params_from_request_def example_request_def example_pq_def Let_def example_closes)
  then have eq: "?r = (Returned, snd ?r)"
    by (cases ?r) simp
  have i: "intercepted ?b ''Computer Science'' (py_str (PInt 421)) = Inr (Some (example_request example_url))"
    by (simp add: example_browser_def)
  from refresh_replaces_headers_updates_params [OF eq i]
  have "headers (snd ?r) = [''cookie'' \<mapsto> ''JSESSIONID=1'']"
    "params (snd ?r) = (params stale)(''uniqueSessionId'' \<mapsto> PStr ''abc123'')"
    by (auto simp add: example_request_def example_pq_def)
  with ret show ?thesis by simp
qed

text \<open>
  Claim C5, as the specification has it, fails. The object holds the parameters of the
  earlier session. The refresh returns; the intercepted URL has \<open>txt_subject\<close> and
  \<open>pageOffset\<close> in its query string and no \<open>uniqueSessionId\<close>. Afterwards the parameters
  are the old ones: the expired \<open>uniqueSessionId\<close> and the integer \<open>421\<close> are still there,
  and \<open>pageOffset\<close> of the request is not.
\<close>

theorem refresh_keeps_old_params_counterexample:
  "fst (refresh example_pq stale ''Computer Science'' (PInt 421) 10000
          (example_browser (Some (example_request plain_url)))) = Returned
   \<and> example_pq (url (example_request plain_url))
       = Inr [''txt_subject'' \<mapsto> [''CS''], ''pageOffset'' \<mapsto> [''0'']]
   \<and> params (snd (refresh example_pq stale ''Computer Science'' (PInt 421) 10000
          (example_browser (Some (example_request plain_url))))) = params stale
   \<and> params stale ''uniqueSessionId'' = Some (PStr ''expired'')
   \<and> params stale ''txt_courseNumber'' = Some (PInt 421)
   \<and> params stale ''pageOffset'' = None"
proof -
  have p: "example_pq plain_url = Inr [''txt_subject'' \<mapsto> [''CS''], ''pageOffset'' \<mapsto> [''0'']]"
    by (simp add: example_pq_def example_url_def plain_url_def)
  have "fst (refresh example_pq stale ''Computer Science'' (PInt 421) 10000
          (example_browser (Some (example_request plain_url)))) = Returned"
    "params (snd (refresh example_pq stale ''Computer Science'' (PInt 421) 10000
          (example_browser (Some (example_request plain_url))))) = params stale"
    by (simp_all add: refresh_captures [OF example_captures] update_headers_from_request_def
        update_params_from_request_def example_request_def p Let_def log_def example_closes)
  moreover have "params stale ''uniqueSessionId'' = Some (PStr ''expired'')"
    "params stale ''txt_courseNumber'' = Some (PInt 421)" "params stale ''pageOffset'' = None"
    by (simp_all add: stale_def init_def)
  ultimately show ?thesis using p by (simp add: example_request_def)
qed

section \<open>The two-factor wait\<close>

lemma duo_iter_both_visible:
  "duo_iter t (both_visible # both_visible # both_visible # both_visible # ds) = Some (Continue [], ds)"
  by (simp add: observe_defs both_visible_def)

lemma duo_wait_skips_both_visible:
  "duo_wait t (both_visible # both_visible # both_visible # both_visible # ds) = duo_wait t ds"
  by (cases "duo_wait t ds")
     (simp add: duo_wait.simps [of t "both_visible # both_visible # both_visible # both_visible # ds"]
        duo_iter_both_visible)

lemma duo_wait_after_both_visible:
  "duo_wait t (replicate (4 * k) both_visible @ ds) = duo_wait t ds"
proof (induction k)
  case 0
  show ?case by simp
next
  case (Suc k)
  have "replicate (4 * Suc k) both_visible
      = both_visible # both_visible # both_visible # both_visible # replicate (4 * k) both_visible"
    by (simp add: numeral_eq_Suc)
  with Suc show ?case by (simp add: duo_wait_skips_both_visible)
qed

lemma duo_wait_few_both_visible:
  assumes "m < 4"
  shows "duo_wait t (replicate m both_visible) = ([], Polling)"
proof -
  from assms have "m = 0 \<or> m = 1 \<or> m = 2 \<or> m = 3" by arith
  then show ?thesis
    by (auto simp add: duo_wait.simps observe_defs both_visible_def numeral_eq_Suc)
qed

lemma duo_wait_all_both_visible: "duo_wait t (replicate n both_visible) = ([], Polling)"
proof -
  have n: "n = 4 * (n div 4) + n mod 4" by simp
  have "replicate n both_visible
      = replicate (4 * (n div 4)) both_visible @ replicate (n mod 4) both_visible"
    by (subst n) (simp only: replicate_add)
  then show ?thesis
    by (simp add: duo_wait_after_both_visible duo_wait_few_both_visible)
qed

text \<open>
  Claim C8. With the retry button and the trust button both visible the loop should click
  trust and leave. It does not: this page is the row that the three conditions of lines
  159 to 165 leave out, and there is no \<^verbatim>\<open>else\<close>. A pass clicks nothing and waits for
  nothing, and the loop goes round again; however long the page stays so, the loop has
  done nothing, the trust button has not been clicked and the loop has not ended. Only a
  page with the trust button and without the retry button ends it.
\<close>

theorem duo_wait_both_visible_no_branch:
  "duo_iter t (both_visible # both_visible # both_visible # both_visible # ds) = Some (Continue [], ds)
   \<and> duo_wait t (replicate n both_visible) = ([], Polling)
   \<and> duo_wait t (replicate (4 * k) both_visible @ replicate 5 trust_only @ ds) = ([ClickTrust], Exited)"
  by (simp add: duo_iter_both_visible duo_wait_all_both_visible duo_wait_after_both_visible
      duo_wait_trust_only)

text \<open>
  With both buttons visible at each of eight \<^verbatim>\<open>is_visible()\<close> calls, two passes of the
  loop, the trust button has not been clicked and the loop has not ended.
\<close>

lemma duo_wait_both_visible_eight_calls:
  "ClickTrust \<notin> set (fst (duo_wait 10000 (replicate 8 both_visible)))
   \<and> snd (duo_wait 10000 (replicate 8 both_visible)) = Polling"
  by (simp add: duo_wait_all_both_visible)

text \<open>The pages of the specification's example: twice neither button, then the trust button.\<close>

lemma duo_wait_neither_neither_trust:
  "duo_wait 10000 (replicate 3 neither_visible @ replicate 3 neither_visible @ replicate 5 trust_only)
     = ([WaitForTimeout 1000, WaitForTimeout 1000, ClickTrust], Exited)"
  by (simp add: numeral_eq_Suc duo_wait.simps observe_defs neither_visible_def trust_only_def)

section \<open>The loop of watch\<close>

lemma refresh_frame: "refresh pq s f n t b = (out, s') \<Longrightarrow> was_failed s' = was_failed s"
  by (auto simp add: refresh_def log_def Let_def update_headers_from_request_def
      update_params_from_request_def
      split: option.splits prod.splits loop_end.splits sum.splits list.splits)

lemma refresh_not_watching: "refresh pq s f n t b = (out, s') \<Longrightarrow> out \<noteq> StillWatching"
  by (auto simp add: refresh_def Let_def
      split: option.splits prod.splits loop_end.splits sum.splits list.splits)

text \<open>A pass of the loop in its three cases.\<close>

lemma watch_iter_success:
  assumes "fetch s (course_abb tg) (course_num tg) (course_ids tg) (server it) = (Inr r, s1)"
  shows "watch_iter pq tg s it =
     (case on_trigger tg r of
        Some e \<Rightarrow> ([Fetch (Inr r), Trigger r], Stop (Raised e), s1\<lparr>was_failed := False\<rparr>)
      | None \<Rightarrow>
          if interval tg < 0
          then ([Fetch (Inr r), Trigger r], Stop (Raised SleepValueError), s1\<lparr>was_failed := False\<rparr>)
          else ([Fetch (Inr r), Trigger r, Sleep (interval tg)], Next, s1\<lparr>was_failed := False\<rparr>))"
  using assms by (simp add: watch_iter_def Let_def split: option.splits)

lemma watch_iter_second_failure:
  assumes "fetch s (course_abb tg) (course_num tg) (course_ids tg) (server it) = (Inl e, s1)"
    and "was_failed s"
  shows "watch_iter pq tg s it =
     ([Fetch (Inl e), MessageBeep], Stop Returned, log (Error ''SnowCat'' ''Exit due to'' (Some e)) s1)"
  using assms fetch_frame [OF assms(1)] by (simp add: watch_iter_def Let_def)

lemma watch_iter_first_failure:
  assumes "fetch s (course_abb tg) (course_num tg) (course_ids tg) (server it) = (Inl e, s1)"
    and "\<not> was_failed s"
    and "refresh pq (s1\<lparr>was_failed := True\<rparr>) (course_field tg) (course_num tg) (timeout tg) (browser it)
           = (out, s2)"
  shows "watch_iter pq tg s it = ([Fetch (Inl e), Refresh], (if out = Returned then Next else Stop out), s2)"
  using assms fetch_frame [OF assms(1)] by (cases out) (simp_all add: watch_iter_def Let_def)


lemma watch_iter_not_watching:
  assumes "watch_iter pq tg s it = (evs, Stop out, s')"
  shows "out \<noteq> StillWatching"
proof -
  obtain res s1 where f: "fetch s (course_abb tg) (course_num tg) (course_ids tg) (server it) = (res, s1)"
    by (cases "fetch s (course_abb tg) (course_num tg) (course_ids tg) (server it)")
  show ?thesis
  proof (cases res)
    case (Inr r)
    with assms f show ?thesis
      by (auto simp add: watch_iter_success split: option.splits if_splits)
  next
    case (Inl e)
    show ?thesis
    proof (cases "was_failed s")
      case True
      with assms f Inl show ?thesis
        by (auto simp add: watch_iter_second_failure)
    next
      case False
      obtain o2 s2 where
        r: "refresh pq (s1\<lparr>was_failed := True\<rparr>) (course_field tg) (course_num tg) (timeout tg) (browser it)
              = (o2, s2)"
        by (cases "refresh pq (s1\<lparr>was_failed := True\<rparr>) (course_field tg) (course_num tg) (timeout tg) (browser it)")
      from refresh_not_watching [OF r] assms f Inl False r show ?thesis
        by (auto simp add: watch_iter_first_failure split: if_splits)
    qed
  qed
qed

text \<open>A loop that is still going round after \<open>pre\<close> goes on with what follows.\<close>

lemma watch_append:
  "watch pq tg s pre = (evs, StillWatching, s1) \<Longrightarrow>
   watch pq tg s (pre @ its) = (case watch pq tg s1 its of (later, out, s2) \<Rightarrow> (evs @ later, out, s2))"
proof (induction pre arbitrary: s evs)
  case Nil
  then show ?case by (auto split: prod.splits)
next
  case (Cons it pre)
  obtain ev fl s' where wi: "watch_iter pq tg s it = (ev, fl, s')"
    by (cases "watch_iter pq tg s it")
  show ?case
  proof (cases fl)
    case (Stop out)
    with Cons.prems wi watch_iter_not_watching [of pq tg s it ev out s'] show ?thesis by simp
  next
    case Next
    obtain ev2 o2 s2 where w: "watch pq tg s' pre = (ev2, o2, s2)"
      by (cases "watch pq tg s' pre")
    with Cons.prems wi Next have "o2 = StillWatching" "s2 = s1" "evs = ev @ ev2" by simp_all
    with Cons.IH [of s' ev2] w wi Next show ?thesis by (simp split: prod.splits)
  qed
qed

text \<open>The example servers and the example browser, from any object.\<close>

lemma fetch_expired:
  "\<exists>s1. fetch s a n (Some ids) expired_server = (Inl (ValueError (Some TypeError) (JBool False)), s1)"
  by (simp add: fetch_def fetch_try_def expired_server_def Let_def)

lemma fetch_open:
  "\<exists>s1. fetch s a n (Some (Scalar (PInt 31375))) open_server = (Inr (JArr [seat]), s1)"
  by (simp add: fetch_def fetch_try_def open_server_def Let_def seat_def py_str_def str_nat.simps)

lemma refresh_example:
  "\<exists>s1. refresh example_pq s f n t (example_browser (Some (example_request example_url))) = (Returned, s1)"
  by (simp add: refresh_captures [OF example_captures] update_headers_from_request_def
      update_params_from_request_def example_request_def example_pq_def Let_def example_closes)

text \<open>
  With a negative interval the first pass whose \<^verbatim>\<open>fetch\<close> and callback return ends
  \<^verbatim>\<open>watch\<close> in the exception of \<^verbatim>\<open>time.sleep\<close>.
\<close>

lemma watch_negative_interval_raises:
  assumes "fetch s (course_abb tg) (course_num tg) (course_ids tg) (server it) = (Inr r, s1)"
    and "on_trigger tg r = None"
    and "interval tg < 0"
  shows "watch pq tg s (it # rest) =
     ([Fetch (Inr r), Trigger r], Raised SleepValueError, s1\<lparr>was_failed := False\<rparr>)"
  using assms(2,3) by (simp add: watch_iter_success [OF assms(1)])

text \<open>
  A failure met with \<open>was_failed\<close> already true, as the object of an earlier \<^verbatim>\<open>watch\<close>
  that gave up has it, ends \<^verbatim>\<open>watch\<close> at once.
\<close>

lemma watch_failure_with_bit_set:
  assumes "fetch s (course_abb tg) (course_num tg) (course_ids tg) (server it) = (Inl e, s1)"
    and "was_failed s"
  shows "watch pq tg s (it # rest) =
     ([Fetch (Inl e), MessageBeep], Returned, log (Error ''SnowCat'' ''Exit due to'' (Some e)) s1)"
  by (simp add: watch_iter_second_failure [OF assms])

text \<open>
  Claim C3. The loop has gone round \<open>pre\<close> and is still going, with \<open>was_failed\<close> false.
  The next \<^verbatim>\<open>fetch\<close> fails, \<^verbatim>\<open>refresh\<close> returns, and the \<^verbatim>\<open>fetch\<close> after it fails too.
  Then \<^verbatim>\<open>watch\<close> returns there, whatever would follow: between the two failures
  \<^verbatim>\<open>refresh\<close> is called once, after the second failure there is the beep and nothing
  else, neither the callback nor a second \<^verbatim>\<open>refresh\<close>.
\<close>

theorem watch_two_failures_return:
  assumes "watch pq tg s0 pre = (evs, StillWatching, s)"
    and "\<not> was_failed s"
    and "fetch s (course_abb tg) (course_num tg) (course_ids tg) (server it1) = (Inl e1, s1)"
    and "refresh pq (s1\<lparr>was_failed := True\<rparr>) (course_field tg) (course_num tg) (timeout tg) (browser it1)
           = (Returned, s2)"
    and "fetch s2 (course_abb tg) (course_num tg) (course_ids tg) (server it2) = (Inl e2, s3)"
  shows "watch pq tg s0 (pre @ it1 # it2 # rest) =
     (evs @ [Fetch (Inl e1), Refresh, Fetch (Inl e2), MessageBeep], Returned,
      log (Error ''SnowCat'' ''Exit due to'' (Some e2)) s3)"
proof -
  have i1: "watch_iter pq tg s it1 = ([Fetch (Inl e1), Refresh], Next, s2)"
    using watch_iter_first_failure [OF assms(3) assms(2) assms(4)] by simp
  have "was_failed s2"
    using refresh_frame [OF assms(4)] by simp
  then have i2: "watch_iter pq tg s2 it2 =
     ([Fetch (Inl e2), MessageBeep], Stop Returned, log (Error ''SnowCat'' ''Exit due to'' (Some e2)) s3)"
    using watch_iter_second_failure [OF assms(5)] by simp
  have "watch pq tg s (it1 # it2 # rest) =
     ([Fetch (Inl e1), Refresh, Fetch (Inl e2), MessageBeep], Returned,
      log (Error ''SnowCat'' ''Exit due to'' (Some e2)) s3)"
    by (simp add: i1 i2)
  with watch_append [OF assms(1), of "it1 # it2 # rest"] show ?thesis by simp
qed

theorem watch_two_failures_return_witness:
  "fst (watch example_pq example_target init [good, bad, bad, good]) =
     [Fetch (Inr (JArr [seat])), Trigger (JArr [seat]), Sleep 15,
      Fetch (Inl (ValueError (Some TypeError) (JBool False))), Refresh,
      Fetch (Inl (ValueError (Some TypeError) (JBool False))), MessageBeep]
   \<and> fst (snd (watch example_pq example_target init [good, bad, bad, good])) = Returned"
proof -
  let ?E = "ValueError (Some TypeError) (JBool False)"
  have tg: "course_abb example_target = ''CS''" "course_num example_target = PInt 421"
    "course_ids example_target = Some (Scalar (PInt 31375))"
    "on_trigger example_target (JArr [seat]) = None" "interval example_target = 15"
    "course_field example_target = ''Computer Science''" "timeout example_target = 10000"
    by (simp_all add: example_target_def)
  have it: "server good = open_server" "server bad = expired_server"
    "browser bad = example_browser (Some (example_request example_url))"
    by (simp_all add: good_def bad_def)
  obtain a0 where f0: "fetch init (course_abb example_target) (course_num example_target)
      (course_ids example_target) (server good) = (Inr (JArr [seat]), a0)"
    using fetch_open [of init "''CS''" "PInt 421"] by (auto simp add: tg it)
  have w0: "watch example_pq example_target init [good] =
      ([Fetch (Inr (JArr [seat])), Trigger (JArr [seat]), Sleep 15], StillWatching, a0\<lparr>was_failed := False\<rparr>)"
    by (simp add: watch_iter_success [OF f0] tg)
  have nf: "\<not> was_failed (a0\<lparr>was_failed := False\<rparr>)" by simp
  obtain a1 where f1: "fetch (a0\<lparr>was_failed := False\<rparr>) (course_abb example_target)
      (course_num example_target) (course_ids example_target) (server bad) = (Inl ?E, a1)"
    using fetch_expired [of "a0\<lparr>was_failed := False\<rparr>" "''CS''" "PInt 421" "Scalar (PInt 31375)"]
    by (auto simp add: tg it)
  obtain a2 where r1: "refresh example_pq (a1\<lparr>was_failed := True\<rparr>) (course_field example_target)
      (course_num example_target) (timeout example_target) (browser bad) = (Returned, a2)"
    using refresh_example [of "a1\<lparr>was_failed := True\<rparr>" "''Computer Science''" "PInt 421" 10000]
    by (auto simp add: tg it)
  obtain a3 where f2: "fetch a2 (course_abb example_target) (course_num example_target)
      (course_ids example_target) (server bad) = (Inl ?E, a3)"
    using fetch_expired [of a2 "''CS''" "PInt 421" "Scalar (PInt 31375)"] by (auto simp add: tg it)
  from watch_two_failures_return [OF w0 nf f1 r1 f2, of "[good]"] show ?thesis by simp
qed



end
